theory Spec2Isabelle
  imports Main "HOL-Library.Word"
begin

section \<open>Solidity value types\<close>

type_synonym uint256 = "256 word"
type_synonym uint32 = "32 word"
type_synonym bytes = "8 word list"
type_synonym address = "160 word"

section \<open>The homomorphic-encryption engine\<close>

text \<open>
  Modelled from the spec: the ciphertext handle abstraction of the external HE engine
  (the library \<^verbatim>\<open>@fhevm/solidity/lib/FHE.sol\<close>, imported by the contract and not part
  of the repository). The spec (sections 2 and 6) gives it four operations:
  \<^verbatim>\<open>wrapConstant(u32)\<close>, \<^verbatim>\<open>add\<close>, \<^verbatim>\<open>isInitialized\<close> and \<^verbatim>\<open>toTransportForm\<close>.
  A handle of type \<^verbatim>\<open>euint32\<close> is either the zero handle, which a Solidity mapping
  returns for a key never written, or a reference to an encrypted 32-bit value. The
  model keeps the encrypted value in the handle, so that "the counter, if decrypted,
  equals n" can be stated; no operation of the contract reads it.
\<close>

datatype euint32 = Uninitialized | Ciphertext uint32

text \<open>Modelled from the spec: \<^verbatim>\<open>isInitialized(ciphertext) \<rightarrow> bool\<close>.\<close>

definition FHE_isInitialized :: "euint32 \<Rightarrow> bool" where
  "FHE_isInitialized h = (h \<noteq> Uninitialized)"

text \<open>Modelled from the spec: \<^verbatim>\<open>wrapConstant(u32) \<rightarrow> ciphertext\<close>.\<close>

definition FHE_asEuint32 :: "uint32 \<Rightarrow> euint32" where
  "FHE_asEuint32 v = Ciphertext v"

text \<open>
  Modelled from the spec: the value a handle decrypts to. The zero handle counts as an
  encryption of zero.
\<close>

fun plaintext :: "euint32 \<Rightarrow> uint32" where
  "plaintext Uninitialized = 0"
| "plaintext (Ciphertext v) = v"

text \<open>
  Modelled from the spec: \<^verbatim>\<open>add(ciphertext, ciphertext) \<rightarrow> ciphertext\<close>, the
  homomorphic addition of two 32-bit values; it wraps around as \<^verbatim>\<open>uint32\<close> does
  ("no overflow handling beyond whatever the ciphertext arithmetic naturally provides").
\<close>

definition FHE_add :: "euint32 \<Rightarrow> euint32 \<Rightarrow> euint32" where
  "FHE_add a b = Ciphertext (plaintext a + plaintext b)"

text \<open>
  Modelled from the spec: \<^verbatim>\<open>toTransportForm(ciphertext) \<rightarrow> bytes\<close>. The transport form
  of a handle is the handle.
\<close>

type_synonym bytes32 = euint32

definition FHE_toBytes32 :: "euint32 \<Rightarrow> bytes32" where
  "FHE_toBytes32 h = h"

section \<open>The environment of a call\<close>

text \<open>
  What the contract takes from outside itself and the compiler's built-ins, as
  parameters: the verdict of \<^verbatim>\<open>FHE.checkSignatures\<close> on a callback (it reverts when the
  proof does not verify), \<^verbatim>\<open>abi.decode\<close> at the two types the contract decodes
  (\<open>None\<close> when the bytes are not an encoding of the type, where \<^verbatim>\<open>abi.decode\<close>
  reverts), and \<^verbatim>\<open>keccak256\<close>.
\<close>

record env =
  checkSignatures :: "uint256 \<Rightarrow> bytes \<Rightarrow> bytes \<Rightarrow> bool"
  abi_decode_strings :: "bytes \<Rightarrow> string list option"
  abi_decode_uint32 :: "bytes \<Rightarrow> uint32 option"
  keccak256 :: "bytes \<Rightarrow> uint256"

text \<open>The two callbacks a decryption request can name.\<close>

datatype selector = Sel_decryptGeometry | Sel_decryptIntersectionCount

text \<open>
  The context of one transaction: \<^verbatim>\<open>msg.sender\<close>, \<^verbatim>\<open>block.timestamp\<close>, and what
  \<^verbatim>\<open>FHE.requestDecryption\<close> does if the transaction calls it. The library call is not
  part of the repository. It either reverts or returns a request id: \<open>oracle_accepts\<close>
  says for which handles and callback it goes through in this transaction (the library
  asks its access-control list whether the contract may have the handles decrypted, and
  reverts if not), \<open>oracle_requestId\<close> is the id it then returns. The oracle chooses that
  id; the contract has no control over it.
\<close>

record txctx =
  msg_sender :: address
  block_timestamp :: uint256
  oracle_requestId :: uint256
  oracle_accepts :: "bytes32 list \<Rightarrow> selector \<Rightarrow> bool"

text \<open>
  \<^verbatim>\<open>FHE.requestDecryption(ciphertexts, selector)\<close>: the request id, or \<open>None\<close> where the
  call reverts.
\<close>

definition FHE_requestDecryption :: "txctx \<Rightarrow> bytes32 list \<Rightarrow> selector \<Rightarrow> uint256 option" where
  "FHE_requestDecryption ctx ciphertexts callbackSelector =
     (if oracle_accepts ctx ciphertexts callbackSelector then Some (oracle_requestId ctx)
      else None)"

text \<open>\<^verbatim>\<open>abi.encodePacked\<close> of one string: its bytes.\<close>

definition abi_encodePacked :: "string \<Rightarrow> bytes" where
  "abi_encodePacked s = map (\<lambda>c. word_of_nat (of_char c)) s"

section \<open>Storage of GeometricCardFHE\<close>

record EncryptedGeometry =
  id_field :: uint256
  encryptedShape2D :: euint32
  encryptedShape3D :: euint32
  timestamp :: uint256

record DecryptedGeometry =
  shape2D :: string
  shape3D :: string
  isDecrypted :: bool

text \<open>
  A Solidity mapping is total: a key never written reads as the zero value of the value
  type. So the mappings are functions, and the constructor's state maps every key to
  zero.
\<close>

record contract_state =
  geometryCount :: uint256
  encryptedGeometries :: "uint256 \<Rightarrow> EncryptedGeometry"
  decryptedGeometries :: "uint256 \<Rightarrow> DecryptedGeometry"
  encryptedIntersectionCount :: "string \<Rightarrow> euint32"
  intersectionCategories :: "string list"
  requestToGeometryId :: "uint256 \<Rightarrow> uint256"

definition constructor :: contract_state where
  "constructor =
     \<lparr>geometryCount = 0,
      encryptedGeometries = (\<lambda>_. \<lparr>id_field = 0, encryptedShape2D = Uninitialized,
                                   encryptedShape3D = Uninitialized, timestamp = 0\<rparr>),
      decryptedGeometries = (\<lambda>_. \<lparr>shape2D = [], shape3D = [], isDecrypted = False\<rparr>),
      encryptedIntersectionCount = (\<lambda>_. Uninitialized),
      intersectionCategories = [],
      requestToGeometryId = (\<lambda>_. 0)\<rparr>"

section \<open>Results of a call\<close>

text \<open>
  A call reverts, and then nothing of it remains, or it returns: its return values, the
  storage after it, the events it emitted and the decryption requests it sent to the
  oracle. The \<^verbatim>\<open>require\<close> messages of the contract are the error kinds of the spec:
  "Already decrypted", "Invalid request", "Category not found". A revert inside
  \<^verbatim>\<open>FHE.checkSignatures\<close> is \<open>ProofVerificationFailed\<close>, one inside \<^verbatim>\<open>abi.decode\<close> is
  \<open>DecodeFailed\<close>, one inside \<^verbatim>\<open>FHE.requestDecryption\<close> is \<open>RequestDecryptionFailed\<close>;
  the two panics are Solidity's checked arithmetic (0x11) and array index check (0x32).
\<close>

datatype error =
    AlreadyDecrypted
  | InvalidRequest
  | CategoryNotFound
  | ProofVerificationFailed
  | DecodeFailed
  | RequestDecryptionFailed
  | PanicOverflow
  | PanicIndexOutOfBounds

datatype event =
    GeometrySubmitted uint256 uint256
  | DecryptionRequested uint256
  | GeometryDecrypted uint256

datatype oracle_call = RequestDecryption "bytes32 list" selector

datatype abi_value =
    AUint256 uint256
  | AString string
  | ABool bool
  | AEuint32 euint32

record receipt =
  returned :: "abi_value list"
  post :: contract_state
  events :: "event list"
  oracle_calls :: "oracle_call list"

type_synonym result = "error + receipt"

section \<open>The functions of the contract\<close>

text \<open>\<^verbatim>\<open>modifier onlyParticipant(uint256 geometryId) { _; }\<close>: the body, unchanged.\<close>

definition onlyParticipant :: "address \<Rightarrow> uint256 \<Rightarrow> result \<Rightarrow> result" where
  "onlyParticipant sender geometryId body = body"

text \<open>
  \<^verbatim>\<open>geometryCount += 1\<close> is checked arithmetic (Solidity 0.8): it reverts at
  \<open>2^256 - 1\<close>. The function declares no return value.
\<close>

definition submitEncryptedGeometry ::
  "txctx \<Rightarrow> euint32 \<Rightarrow> euint32 \<Rightarrow> contract_state \<Rightarrow> result" where
  "submitEncryptedGeometry ctx encShape2D encShape3D s =
     (if geometryCount s = - 1 then Inl PanicOverflow
      else
        let newId = geometryCount s + 1 in
        Inr \<lparr>returned = [],
             post = s\<lparr>geometryCount := newId,
                      encryptedGeometries := (encryptedGeometries s)
                        (newId := \<lparr>id_field = newId, encryptedShape2D = encShape2D,
                                   encryptedShape3D = encShape3D,
                                   timestamp = block_timestamp ctx\<rparr>),
                      decryptedGeometries := (decryptedGeometries s)
                        (newId := \<lparr>shape2D = [], shape3D = [], isDecrypted = False\<rparr>)\<rparr>,
             events = [GeometrySubmitted newId (block_timestamp ctx)],
             oracle_calls = []\<rparr>)"

definition requestGeometryDecryption :: "txctx \<Rightarrow> uint256 \<Rightarrow> contract_state \<Rightarrow> result" where
  "requestGeometryDecryption ctx geometryId s =
     onlyParticipant (msg_sender ctx) geometryId
       (let geo = encryptedGeometries s geometryId in
        if isDecrypted (decryptedGeometries s geometryId) then Inl AlreadyDecrypted
        else
          let ciphertexts = [FHE_toBytes32 (encryptedShape2D geo),
                             FHE_toBytes32 (encryptedShape3D geo)]
          in (case FHE_requestDecryption ctx ciphertexts Sel_decryptGeometry of
                None \<Rightarrow> Inl RequestDecryptionFailed
              | Some reqId \<Rightarrow>
                  Inr \<lparr>returned = [],
                       post = s\<lparr>requestToGeometryId :=
                                  (requestToGeometryId s)(reqId := geometryId)\<rparr>,
                       events = [DecryptionRequested geometryId],
                       oracle_calls = [RequestDecryption ciphertexts Sel_decryptGeometry]\<rparr>))"

text \<open>
  The category fold of \<^verbatim>\<open>decryptGeometry\<close> (lines 94 to 101): the counter of the
  category is created on first use, then incremented.
\<close>

definition incrementCategory :: "string \<Rightarrow> contract_state \<Rightarrow> contract_state" where
  "incrementCategory category s =
     (let s1 = (if \<not> FHE_isInitialized (encryptedIntersectionCount s category)
                then s\<lparr>encryptedIntersectionCount :=
                          (encryptedIntersectionCount s)(category := FHE_asEuint32 0),
                        intersectionCategories := intersectionCategories s @ [category]\<rparr>
                else s)
      in s1\<lparr>encryptedIntersectionCount :=
              (encryptedIntersectionCount s1)
                (category := FHE_add (encryptedIntersectionCount s1 category) (FHE_asEuint32 1))\<rparr>)"

definition decryptGeometry ::
  "env \<Rightarrow> txctx \<Rightarrow> uint256 \<Rightarrow> bytes \<Rightarrow> bytes \<Rightarrow> contract_state \<Rightarrow> result" where
  "decryptGeometry e ctx requestId cleartexts proof s =
     (let geometryId = requestToGeometryId s requestId in
      if geometryId = 0 then Inl InvalidRequest
      else if isDecrypted (decryptedGeometries s geometryId) then Inl AlreadyDecrypted
      else if \<not> checkSignatures e requestId cleartexts proof then Inl ProofVerificationFailed
      else
        case abi_decode_strings e cleartexts of
          None \<Rightarrow> Inl DecodeFailed
        | Some results \<Rightarrow>
            if length results < 2 then Inl PanicIndexOutOfBounds
            else
              let s1 = s\<lparr>decryptedGeometries := (decryptedGeometries s)
                          (geometryId := \<lparr>shape2D = results ! 0, shape3D = results ! 1,
                                          isDecrypted = True\<rparr>)\<rparr>
              in Inr \<lparr>returned = [],
                      post = incrementCategory (results ! 1) s1,
                      events = [GeometryDecrypted geometryId],
                      oracle_calls = []\<rparr>)"

definition getDecryptedGeometry :: "uint256 \<Rightarrow> contract_state \<Rightarrow> string \<times> string \<times> bool" where
  "getDecryptedGeometry geometryId s =
     (let geo = decryptedGeometries s geometryId
      in (shape2D geo, shape3D geo, isDecrypted geo))"

definition getEncryptedIntersectionCount :: "string \<Rightarrow> contract_state \<Rightarrow> euint32" where
  "getEncryptedIntersectionCount category s = encryptedIntersectionCount s category"

definition bytes32ToUint :: "uint256 \<Rightarrow> uint256" where
  "bytes32ToUint b = b"

definition requestIntersectionCountDecryption ::
  "env \<Rightarrow> txctx \<Rightarrow> string \<Rightarrow> contract_state \<Rightarrow> result" where
  "requestIntersectionCountDecryption e ctx category s =
     (let count = encryptedIntersectionCount s category in
      if \<not> FHE_isInitialized count then Inl CategoryNotFound
      else
        let ciphertexts = [FHE_toBytes32 count]
        in (case FHE_requestDecryption ctx ciphertexts Sel_decryptIntersectionCount of
              None \<Rightarrow> Inl RequestDecryptionFailed
            | Some reqId \<Rightarrow>
                Inr \<lparr>returned = [],
                     post = s\<lparr>requestToGeometryId := (requestToGeometryId s)
                               (reqId := bytes32ToUint (keccak256 e (abi_encodePacked category)))\<rparr>,
                     events = [],
                     oracle_calls =
                       [RequestDecryption ciphertexts Sel_decryptIntersectionCount]\<rparr>))"

text \<open>
  The loop of \<^verbatim>\<open>getCategoryFromHash\<close> over the array, from its first element: the first
  category whose hash is the one looked for, or the revert "Category not found".
\<close>

fun getCategoryFromHash_loop :: "env \<Rightarrow> string list \<Rightarrow> uint256 \<Rightarrow> error + string" where
  "getCategoryFromHash_loop e [] h = Inl CategoryNotFound"
| "getCategoryFromHash_loop e (c # cs) h =
     (if bytes32ToUint (keccak256 e (abi_encodePacked c)) = h then Inr c
      else getCategoryFromHash_loop e cs h)"

definition getCategoryFromHash :: "env \<Rightarrow> uint256 \<Rightarrow> contract_state \<Rightarrow> error + string" where
  "getCategoryFromHash e h s = getCategoryFromHash_loop e (intersectionCategories s) h"

definition decryptIntersectionCount ::
  "env \<Rightarrow> txctx \<Rightarrow> uint256 \<Rightarrow> bytes \<Rightarrow> bytes \<Rightarrow> contract_state \<Rightarrow> result" where
  "decryptIntersectionCount e ctx requestId cleartexts proof s =
     (let categoryHash = requestToGeometryId s requestId in
      case getCategoryFromHash e categoryHash s of
        Inl err \<Rightarrow> Inl err
      | Inr category \<Rightarrow>
          (if \<not> checkSignatures e requestId cleartexts proof then Inl ProofVerificationFailed
           else
             (case abi_decode_uint32 e cleartexts of
                None \<Rightarrow> Inl DecodeFailed
              | Some count \<Rightarrow>
                  Inr \<lparr>returned = [], post = s, events = [], oracle_calls = []\<rparr>)))"

section \<open>Transactions\<close>

text \<open>
  The public interface: the seven functions and the getters that Solidity generates for
  the three \<^verbatim>\<open>public\<close> state variables.
\<close>

datatype call =
    SubmitEncryptedGeometry euint32 euint32
  | RequestGeometryDecryption uint256
  | DecryptGeometry uint256 bytes bytes
  | GetDecryptedGeometry uint256
  | GetEncryptedIntersectionCount string
  | RequestIntersectionCountDecryption string
  | DecryptIntersectionCount uint256 bytes bytes
  | Get_geometryCount
  | Get_encryptedGeometries uint256
  | Get_decryptedGeometries uint256

definition view_result :: "abi_value list \<Rightarrow> contract_state \<Rightarrow> result" where
  "view_result vs s = Inr \<lparr>returned = vs, post = s, events = [], oracle_calls = []\<rparr>"

fun exec :: "env \<Rightarrow> txctx \<Rightarrow> call \<Rightarrow> contract_state \<Rightarrow> result" where
  "exec e ctx (SubmitEncryptedGeometry a b) s = submitEncryptedGeometry ctx a b s"
| "exec e ctx (RequestGeometryDecryption g) s = requestGeometryDecryption ctx g s"
| "exec e ctx (DecryptGeometry r c p) s = decryptGeometry e ctx r c p s"
| "exec e ctx (GetDecryptedGeometry g) s =
     (case getDecryptedGeometry g s of
        (a, b, d) \<Rightarrow> view_result [AString a, AString b, ABool d] s)"
| "exec e ctx (GetEncryptedIntersectionCount c) s =
     view_result [AEuint32 (getEncryptedIntersectionCount c s)] s"
| "exec e ctx (RequestIntersectionCountDecryption c) s =
     requestIntersectionCountDecryption e ctx c s"
| "exec e ctx (DecryptIntersectionCount r c p) s = decryptIntersectionCount e ctx r c p s"
| "exec e ctx Get_geometryCount s = view_result [AUint256 (geometryCount s)] s"
| "exec e ctx (Get_encryptedGeometries g) s =
     (let geo = encryptedGeometries s g
      in view_result [AUint256 (id_field geo), AEuint32 (encryptedShape2D geo),
                      AEuint32 (encryptedShape3D geo), AUint256 (timestamp geo)] s)"
| "exec e ctx (Get_decryptedGeometries g) s =
     (let geo = decryptedGeometries s g
      in view_result [AString (shape2D geo), AString (shape3D geo), ABool (isDecrypted geo)] s)"

text \<open>A transaction that reverts leaves the storage as it was.\<close>

definition apply_tx :: "env \<Rightarrow> contract_state \<Rightarrow> txctx \<times> call \<Rightarrow> contract_state" where
  "apply_tx e s tx = (case exec e (fst tx) (snd tx) s of Inl _ \<Rightarrow> s | Inr r \<Rightarrow> post r)"

fun run :: "env \<Rightarrow> contract_state \<Rightarrow> (txctx \<times> call) list \<Rightarrow> contract_state" where
  "run e s [] = s"
| "run e s (tx # txs) = run e (apply_tx e s tx) txs"

section \<open>Traces and what they count\<close>

text \<open>
  Whether a transaction is a geometry callback that succeeds in state \<open>s\<close> and whose
  decoded 3D-shape field, \<^verbatim>\<open>results[1]\<close>, is the category \<open>c\<close>.
\<close>

definition decrypts_into :: "env \<Rightarrow> contract_state \<Rightarrow> txctx \<times> call \<Rightarrow> string \<Rightarrow> bool" where
  "decrypts_into e s tx c =
     (case snd tx of
        DecryptGeometry r ct pf \<Rightarrow>
          (case decryptGeometry e (fst tx) r ct pf s of
             Inl _ \<Rightarrow> False
           | Inr _ \<Rightarrow>
               (case abi_decode_strings e ct of
                  None \<Rightarrow> False
                | Some results \<Rightarrow> results ! 1 = c))
      | _ \<Rightarrow> False)"

text \<open>The number of successful geometry callbacks of a trace that decrypt into \<open>c\<close>.\<close>

fun decrypted_into ::
  "env \<Rightarrow> contract_state \<Rightarrow> (txctx \<times> call) list \<Rightarrow> string \<Rightarrow> nat" where
  "decrypted_into e s [] c = 0"
| "decrypted_into e s (tx # txs) c =
     (if decrypts_into e s tx c then 1 else 0) + decrypted_into e (apply_tx e s tx) txs c"

text \<open>The ids that the successful submissions of a trace assign, in order.\<close>

definition assigned_id :: "contract_state \<Rightarrow> txctx \<times> call \<Rightarrow> uint256 list" where
  "assigned_id s tx =
     (case snd tx of
        SubmitEncryptedGeometry a b \<Rightarrow>
          (case submitEncryptedGeometry (fst tx) a b s of
             Inl _ \<Rightarrow> []
           | Inr r \<Rightarrow> [geometryCount (post r)])
      | _ \<Rightarrow> [])"

fun assigned_ids :: "env \<Rightarrow> contract_state \<Rightarrow> (txctx \<times> call) list \<Rightarrow> uint256 list" where
  "assigned_ids e s [] = []"
| "assigned_ids e s (tx # txs) = assigned_id s tx @ assigned_ids e (apply_tx e s tx) txs"

text \<open>
  The category registry and the counters agree: the registry lists each category once,
  and a category is listed exactly when its counter is an initialised handle.
\<close>

definition registry_ok :: "contract_state \<Rightarrow> bool" where
  "registry_ok s =
     (distinct (intersectionCategories s) \<and>
      (\<forall>c. FHE_isInitialized (encryptedIntersectionCount s c) = (c \<in> set (intersectionCategories s))))"

text \<open>A decryption state that is not decrypted holds two empty strings.\<close>

definition undecrypted_empty :: "contract_state \<Rightarrow> bool" where
  "undecrypted_empty s =
     (\<forall>g. \<not> isDecrypted (decryptedGeometries s g) \<longrightarrow>
          shape2D (decryptedGeometries s g) = [] \<and> shape3D (decryptedGeometries s g) = [])"

text \<open>
  The ids beyond the counter, and the id 0, have no record: their encrypted struct is
  the zero value, with two zero handles.
\<close>

definition unassigned_blank :: "contract_state \<Rightarrow> bool" where
  "unassigned_blank s =
     (\<forall>g. g = 0 \<or> geometryCount s < g \<longrightarrow>
          encryptedGeometries s g =
            \<lparr>id_field = 0, encryptedShape2D = Uninitialized,
             encryptedShape3D = Uninitialized, timestamp = 0\<rparr>)"







section \<open>A small environment for concrete runs\<close>

text \<open>
  Stand-ins for the oracle, the decoder and the hash, small enough to evaluate: a proof
  verifies when it is the single byte \<open>0xAA\<close>; each byte of a cleartext decodes to one
  string of a table; a single byte decodes to an integer; the hash of a byte string is
  its length plus one. Only the concrete runs below use them. Every general theorem
  holds for all environments.
\<close>

definition toy_string :: "8 word \<Rightarrow> string" where
  "toy_string b =
     (if b = 0 then [] else if b = 1 then ''cube'' else if b = 2 then ''square'' else ''sphere'')"

definition toy_env :: env where
  "toy_env =
     \<lparr>checkSignatures = (\<lambda>requestId cleartexts proof. proof = [170]),
      abi_decode_strings = (\<lambda>cleartexts. Some (map toy_string cleartexts)),
      abi_decode_uint32 = (\<lambda>cleartexts. case cleartexts of [b] \<Rightarrow> Some (ucast b) | _ \<Rightarrow> None),
      keccak256 = (\<lambda>bs. word_of_nat (length bs) + 1)\<rparr>"

text \<open>
  Two contexts. In \<open>toy_ctx\<close> the library accepts every decryption request. In \<open>acl_ctx\<close>
  it accepts a request exactly when each of its handles is in the list \<open>granted\<close>, the
  handles on which the contract was given permission.
\<close>

definition toy_ctx :: "uint256 \<Rightarrow> txctx" where
  "toy_ctx reqId =
     \<lparr>msg_sender = 0, block_timestamp = 1000, oracle_requestId = reqId,
      oracle_accepts = (\<lambda>ciphertexts callbackSelector. True)\<rparr>"

definition acl_ctx :: "bytes32 list \<Rightarrow> uint256 \<Rightarrow> txctx" where
  "acl_ctx granted reqId =
     \<lparr>msg_sender = 0, block_timestamp = 1000, oracle_requestId = reqId,
      oracle_accepts = (\<lambda>ciphertexts callbackSelector. list_all (\<lambda>h. h \<in> set granted) ciphertexts)\<rparr>"

text \<open>
  One record submitted, its decryption requested as request 10 and delivered with the
  3D shape "cube".
\<close>

definition cube_trace :: "(txctx \<times> call) list" where
  "cube_trace =
     [(toy_ctx 0, SubmitEncryptedGeometry (Ciphertext 7) (Ciphertext 8)),
      (toy_ctx 10, RequestGeometryDecryption 1),
      (toy_ctx 0, DecryptGeometry 10 [2, 1] [170])]"

section \<open>Helper lemmas\<close>

lemmas op_defs =
  submitEncryptedGeometry_def requestGeometryDecryption_def onlyParticipant_def
  decryptGeometry_def Let_def view_result_def getDecryptedGeometry_def
  requestIntersectionCountDecryption_def decryptIntersectionCount_def
  getEncryptedIntersectionCount_def FHE_requestDecryption_def

lemmas toy_defs =
  constructor_def toy_env_def toy_ctx_def toy_string_def apply_tx_def cube_trace_def

lemma word_succ_gt: "(x::uint256) \<noteq> - 1 \<Longrightarrow> x < x + 1"
  by (metis inc_less_eq_triv_imp linorder_less_linear word_le_less_eq)

lemma word_succ_neq: "(x::uint256) \<noteq> - 1 \<Longrightarrow> g \<le> x \<Longrightarrow> g \<noteq> x + 1"
  by (metis inc_less_eq_triv_imp)

subsection \<open>The category fold\<close>

lemma incrementCategory_frame:
  "decryptedGeometries (incrementCategory c s) = decryptedGeometries s"
  "requestToGeometryId (incrementCategory c s) = requestToGeometryId s"
  "geometryCount (incrementCategory c s) = geometryCount s"
  "encryptedGeometries (incrementCategory c s) = encryptedGeometries s"
  by (simp_all add: incrementCategory_def Let_def)

lemma incrementCategory_count:
  "encryptedIntersectionCount (incrementCategory c s) c' =
     (if c' = c then Ciphertext (plaintext (encryptedIntersectionCount s c) + 1)
      else encryptedIntersectionCount s c')"
  by (simp add: incrementCategory_def Let_def FHE_add_def FHE_asEuint32_def
      FHE_isInitialized_def)

lemma incrementCategory_categories:
  "intersectionCategories (incrementCategory c s) =
     (if FHE_isInitialized (encryptedIntersectionCount s c) then intersectionCategories s
      else intersectionCategories s @ [c])"
  by (simp add: incrementCategory_def Let_def)

subsection \<open>The decrypted flag of a submitted record stays set\<close>

lemma exec_isDecrypted_mono:
  assumes "exec e ctx c s = Inr r" and "isDecrypted (decryptedGeometries s g)"
    and "g \<le> geometryCount s"
  shows "isDecrypted (decryptedGeometries (post r) g)"
  using assms
  by (cases c)
     (auto simp: op_defs incrementCategory_frame word_succ_neq
           split: if_splits option.splits sum.splits)

lemma exec_geometryCount_mono:
  assumes "exec e ctx c s = Inr r"
  shows "geometryCount s \<le> geometryCount (post r)"
  using assms
  by (cases c)
     (auto simp: op_defs incrementCategory_frame word_succ_gt less_imp_le
           split: if_splits option.splits sum.splits)

lemma apply_tx_isDecrypted_mono:
  "isDecrypted (decryptedGeometries s g) \<Longrightarrow> g \<le> geometryCount s \<Longrightarrow>
   isDecrypted (decryptedGeometries (apply_tx e s tx) g)"
  by (auto simp: apply_tx_def split: sum.splits intro: exec_isDecrypted_mono)

lemma apply_tx_geometryCount_mono: "geometryCount s \<le> geometryCount (apply_tx e s tx)"
  by (auto simp: apply_tx_def split: sum.splits intro: exec_geometryCount_mono)

lemma run_isDecrypted_mono:
  "isDecrypted (decryptedGeometries s g) \<Longrightarrow> g \<le> geometryCount s \<Longrightarrow>
   isDecrypted (decryptedGeometries (run e s txs) g)"
proof (induction txs arbitrary: s)
  case Nil
  then show ?case by simp
next
  case (Cons tx txs)
  have "g \<le> geometryCount (apply_tx e s tx)"
    using Cons.prems(2) apply_tx_geometryCount_mono order_trans by blast
  with Cons show ?case by (simp add: apply_tx_isDecrypted_mono)
qed

lemma decryptGeometry_AlreadyDecrypted:
  "requestToGeometryId s r \<noteq> 0 \<Longrightarrow>
   isDecrypted (decryptedGeometries s (requestToGeometryId s r)) \<Longrightarrow>
   decryptGeometry e ctx r ct pf s = Inl AlreadyDecrypted"
  by (simp add: decryptGeometry_def)

section \<open>Invariants of the reachable states\<close>

subsection \<open>The registry and the counters\<close>

lemma registry_ok_incrementCategory:
  "registry_ok s \<Longrightarrow> registry_ok (incrementCategory c s)"
  by (auto simp: registry_ok_def incrementCategory_count incrementCategory_categories
        FHE_isInitialized_def)

lemma registry_ok_update [simp]:
  "registry_ok (s\<lparr>decryptedGeometries := d\<rparr>) = registry_ok s"
  "registry_ok (s\<lparr>requestToGeometryId := q\<rparr>) = registry_ok s"
  "registry_ok (s\<lparr>geometryCount := n\<rparr>) = registry_ok s"
  "registry_ok (s\<lparr>encryptedGeometries := g\<rparr>) = registry_ok s"
  by (simp_all add: registry_ok_def)

lemma exec_registry_ok:
  assumes "exec e ctx c s = Inr r" and "registry_ok s"
  shows "registry_ok (post r)"
  using assms
  by (cases c)
     (auto simp: op_defs registry_ok_incrementCategory
           split: if_splits option.splits sum.splits)

lemma apply_tx_registry_ok: "registry_ok s \<Longrightarrow> registry_ok (apply_tx e s tx)"
  by (auto simp: apply_tx_def split: sum.splits intro: exec_registry_ok)

lemma run_registry_ok: "registry_ok s \<Longrightarrow> registry_ok (run e s txs)"
  by (induction txs arbitrary: s) (simp_all add: apply_tx_registry_ok)

lemma registry_ok_constructor: "registry_ok constructor"
  by (simp add: registry_ok_def constructor_def FHE_isInitialized_def)

text \<open>One transaction adds one to the counter of \<open>c\<close> if it decrypts into \<open>c\<close>, and else
  leaves the counter alone.\<close>

lemma apply_tx_count:
  "encryptedIntersectionCount (apply_tx e s tx) c =
     (if decrypts_into e s tx c
      then Ciphertext (plaintext (encryptedIntersectionCount s c) + 1)
      else encryptedIntersectionCount s c)"
proof (cases tx)
  case (Pair ctx cl)
  show ?thesis
    unfolding Pair
    by (cases cl)
       (auto simp: apply_tx_def decrypts_into_def op_defs incrementCategory_count
             split: if_splits option.splits sum.splits)
qed

lemma run_count:
  "encryptedIntersectionCount (run e s txs) c =
     (if decrypted_into e s txs c = 0 then encryptedIntersectionCount s c
      else Ciphertext (plaintext (encryptedIntersectionCount s c) +
                       of_nat (decrypted_into e s txs c)))"
proof (induction txs arbitrary: s)
  case Nil
  then show ?case by simp
next
  case (Cons tx txs)
  show ?case
    by (simp add: Cons.IH apply_tx_count add.assoc)
qed

lemma unat_of_nat_32: "n < 2 ^ 32 \<Longrightarrow> unat (of_nat n :: uint32) = n"
  by (simp add: unat_of_nat take_bit_nat_eq_self)

text \<open>An encrypted zero incremented \<open>n\<close> times is an encryption of \<open>n\<close>.\<close>

lemma increments_of_zero:
  "((\<lambda>h. FHE_add h (FHE_asEuint32 1)) ^^ n) (FHE_asEuint32 0) = Ciphertext (of_nat n)"
  by (induction n) (simp_all add: FHE_add_def FHE_asEuint32_def)

subsection \<open>Undecrypted states are empty\<close>

lemma exec_undecrypted_empty:
  assumes "exec e ctx c s = Inr r" and "undecrypted_empty s"
  shows "undecrypted_empty (post r)"
  using assms
  by (cases c)
     (auto simp: op_defs incrementCategory_frame undecrypted_empty_def
           split: if_splits option.splits sum.splits)

lemma apply_tx_undecrypted_empty: "undecrypted_empty s \<Longrightarrow> undecrypted_empty (apply_tx e s tx)"
  by (auto simp: apply_tx_def split: sum.splits intro: exec_undecrypted_empty)

lemma run_undecrypted_empty: "undecrypted_empty s \<Longrightarrow> undecrypted_empty (run e s txs)"
  by (induction txs arbitrary: s) (simp_all add: apply_tx_undecrypted_empty)

lemma undecrypted_empty_constructor: "undecrypted_empty constructor"
  by (simp add: undecrypted_empty_def constructor_def)

subsection \<open>The ids of a trace\<close>

lemma assigned_id_cases:
  "assigned_id s tx = [] \<or>
   (assigned_id s tx = [geometryCount (apply_tx e s tx)] \<and>
    geometryCount s < geometryCount (apply_tx e s tx))"
proof (cases tx)
  case (Pair ctx cl)
  show ?thesis
    unfolding Pair
    by (cases cl)
       (auto simp: assigned_id_def apply_tx_def submitEncryptedGeometry_def Let_def word_succ_gt
             split: sum.splits if_splits)
qed

lemma assigned_ids_increasing:
  "sorted_wrt (<) (assigned_ids e s txs) \<and>
   (\<forall>i \<in> set (assigned_ids e s txs). geometryCount s < i)"
proof (induction txs arbitrary: s)
  case Nil
  then show ?case by simp
next
  case (Cons tx txs)
  let ?s' = "apply_tx e s tx"
  have IH: "sorted_wrt (<) (assigned_ids e ?s' txs)"
    and above: "\<forall>i \<in> set (assigned_ids e ?s' txs). geometryCount ?s' < i"
    using Cons.IH [of ?s'] by blast+
  have mono: "geometryCount s \<le> geometryCount ?s'"
    by (rule apply_tx_geometryCount_mono)
  from assigned_id_cases [of s tx e] show ?case
  proof
    assume "assigned_id s tx = []"
    then show ?thesis using IH above mono by (auto intro: order_le_less_trans)
  next
    assume a: "assigned_id s tx = [geometryCount ?s'] \<and> geometryCount s < geometryCount ?s'"
    then show ?thesis using IH above by (auto simp: sorted_wrt_append intro: less_trans)
  qed
qed

subsection \<open>Ids without a record\<close>

lemma exec_unassigned_blank:
  assumes "exec e ctx c s = Inr r" and "unassigned_blank s"
  shows "unassigned_blank (post r)"
proof (cases c)
  case (SubmitEncryptedGeometry a b)
  with assms have ok: "geometryCount s \<noteq> - 1"
    by (auto simp: submitEncryptedGeometry_def split: if_splits)
  have lt: "geometryCount s < geometryCount s + 1"
    using ok by (rule word_succ_gt)
  have nz: "geometryCount s + 1 \<noteq> 0"
    using lt by (metis word_not_simps(1))
  show ?thesis
    using assms SubmitEncryptedGeometry ok lt nz
    by (auto simp: submitEncryptedGeometry_def Let_def unassigned_blank_def
             dest: less_trans)
qed (use assms in \<open>auto simp: op_defs incrementCategory_def unassigned_blank_def
           split: if_splits option.splits sum.splits\<close>)

lemma apply_tx_unassigned_blank: "unassigned_blank s \<Longrightarrow> unassigned_blank (apply_tx e s tx)"
  by (auto simp: apply_tx_def split: sum.splits intro: exec_unassigned_blank)

lemma run_unassigned_blank: "unassigned_blank s \<Longrightarrow> unassigned_blank (run e s txs)"
  by (induction txs arbitrary: s) (simp_all add: apply_tx_unassigned_blank)

lemma unassigned_blank_constructor: "unassigned_blank constructor"
  by (simp add: unassigned_blank_def constructor_def)

subsection \<open>The kinds of the table entries\<close>






subsection \<open>A decrypted state of a submitted record is not written again\<close>

lemma exec_decrypted_frozen:
  assumes "exec e ctx c s = Inr r" and "isDecrypted (decryptedGeometries s g)"
    and "g \<le> geometryCount s"
  shows "decryptedGeometries (post r) g = decryptedGeometries s g"
  using assms
  by (cases c)
     (auto simp: op_defs incrementCategory_frame word_succ_neq
           split: if_splits option.splits sum.splits)

lemma apply_tx_decrypted_frozen:
  "isDecrypted (decryptedGeometries s g) \<Longrightarrow> g \<le> geometryCount s \<Longrightarrow>
   decryptedGeometries (apply_tx e s tx) g = decryptedGeometries s g"
  by (auto simp: apply_tx_def split: sum.splits intro: exec_decrypted_frozen)

lemma run_decrypted_frozen:
  "isDecrypted (decryptedGeometries s g) \<Longrightarrow> g \<le> geometryCount s \<Longrightarrow>
   decryptedGeometries (run e s txs) g = decryptedGeometries s g"
proof (induction txs arbitrary: s)
  case Nil
  then show ?case by simp
next
  case (Cons tx txs)
  have same: "decryptedGeometries (apply_tx e s tx) g = decryptedGeometries s g"
    using Cons.prems by (rule apply_tx_decrypted_frozen)
  have "g \<le> geometryCount (apply_tx e s tx)"
    using Cons.prems(2) apply_tx_geometryCount_mono order_trans by blast
  with Cons.IH [of "apply_tx e s tx"] same Cons.prems(1) show ?case by simp
qed

section \<open>C1: a record is decrypted once\<close>

text \<open>
  C1. Let two request ids \<open>r1\<close> and \<open>r2\<close> map to the same record \<open>g\<close>, not yet
  decrypted, and let the callback for \<open>r1\<close> carry a proof that verifies and a cleartext
  that decodes to at least two strings. Then that callback succeeds: it writes the two
  strings and the flag into the decryption state of \<open>g\<close> and adds one to the counter of
  the decoded 3D shape. Any callback for \<open>r2\<close> after it, whatever its cleartext and proof
  (valid ones included), fails with \<open>AlreadyDecrypted\<close> and leaves the whole state, so
  every category counter, as the first callback left it. For a submitted record
  (\<open>g \<le> geometryCount\<close>) this stays so after any further transactions \<open>txs\<close>, as long as
  \<open>r2\<close> still maps to \<open>g\<close>.
\<close>

theorem decryptGeometry_applied_once:
  assumes "requestToGeometryId s r1 = g" and "requestToGeometryId s r2 = g" and "g \<noteq> 0"
    and "\<not> isDecrypted (decryptedGeometries s g)"
    and "checkSignatures e r1 ct1 pf1"
    and "abi_decode_strings e ct1 = Some res1" and "2 \<le> length res1"
  shows "\<exists>rc. decryptGeometry e ctx1 r1 ct1 pf1 s = Inr rc \<and>
           decryptedGeometries (post rc) g =
             \<lparr>shape2D = res1 ! 0, shape3D = res1 ! 1, isDecrypted = True\<rparr> \<and>
           plaintext (encryptedIntersectionCount (post rc) (res1 ! 1)) =
             plaintext (encryptedIntersectionCount s (res1 ! 1)) + 1 \<and>
           decryptGeometry e ctx2 r2 ct2 pf2 (post rc) = Inl AlreadyDecrypted \<and>
           run e (post rc) [(ctx2, DecryptGeometry r2 ct2 pf2)] = post rc \<and>
           (g \<le> geometryCount s \<and> requestToGeometryId (run e (post rc) txs) r2 = g \<longrightarrow>
              decryptGeometry e ctx2 r2 ct2 pf2 (run e (post rc) txs) = Inl AlreadyDecrypted)"
proof -
  define s1 where "s1 = s\<lparr>decryptedGeometries := (decryptedGeometries s)
                          (g := \<lparr>shape2D = res1 ! 0, shape3D = res1 ! 1, isDecrypted = True\<rparr>)\<rparr>"
  define rc where "rc = \<lparr>returned = [], post = incrementCategory (res1 ! 1) s1,
                         events = [GeometryDecrypted g], oracle_calls = []\<rparr>"
  have first: "decryptGeometry e ctx1 r1 ct1 pf1 s = Inr rc"
    using assms by (simp add: decryptGeometry_def rc_def s1_def Let_def)
  have dg: "decryptedGeometries (post rc) g =
             \<lparr>shape2D = res1 ! 0, shape3D = res1 ! 1, isDecrypted = True\<rparr>"
    by (simp add: rc_def s1_def incrementCategory_frame)
  have cnt: "plaintext (encryptedIntersectionCount (post rc) (res1 ! 1)) =
             plaintext (encryptedIntersectionCount s (res1 ! 1)) + 1"
    by (simp add: rc_def s1_def incrementCategory_count)
  have req: "requestToGeometryId (post rc) r2 = g"
    using assms(2) by (simp add: rc_def s1_def incrementCategory_frame)
  have gc: "geometryCount (post rc) = geometryCount s"
    by (simp add: rc_def s1_def incrementCategory_frame)
  have second: "decryptGeometry e ctx2 r2 ct2 pf2 (post rc) = Inl AlreadyDecrypted"
    using decryptGeometry_AlreadyDecrypted [of "post rc" r2] req dg assms(3) by simp
  have unchanged: "run e (post rc) [(ctx2, DecryptGeometry r2 ct2 pf2)] = post rc"
    using second by (simp add: apply_tx_def)
  have later: "decryptGeometry e ctx2 r2 ct2 pf2 (run e (post rc) txs) = Inl AlreadyDecrypted"
    if "g \<le> geometryCount s" and "requestToGeometryId (run e (post rc) txs) r2 = g"
  proof -
    have "isDecrypted (decryptedGeometries (run e (post rc) txs) g)"
      using run_isDecrypted_mono [of "post rc" g e txs] dg gc that(1) by simp
    then show ?thesis
      using decryptGeometry_AlreadyDecrypted [of "run e (post rc) txs" r2] that(2) assms(3)
      by simp
  qed
  show ?thesis
    using first dg cnt second unchanged later by blast
qed

text \<open>
  The theorem at a record submitted and requested twice, as requests 10 and 11: the
  callback for request 10 decrypts it into "cube", the one for request 11 is rejected,
  at once and also after another submission and another request.
\<close>

theorem decryptGeometry_applied_once_witness:
  "\<exists>rc. decryptGeometry toy_env (toy_ctx 0) 10 [2, 1] [170]
          (run toy_env constructor
             [(toy_ctx 0, SubmitEncryptedGeometry (Ciphertext 7) (Ciphertext 8)),
              (toy_ctx 10, RequestGeometryDecryption 1),
              (toy_ctx 11, RequestGeometryDecryption 1)]) = Inr rc \<and>
        decryptedGeometries (post rc) 1 =
          \<lparr>shape2D = ''square'', shape3D = ''cube'', isDecrypted = True\<rparr> \<and>
        encryptedIntersectionCount (post rc) ''cube'' = Ciphertext 1 \<and>
        decryptGeometry toy_env (toy_ctx 0) 11 [2, 1] [170] (post rc) = Inl AlreadyDecrypted \<and>
        decryptGeometry toy_env (toy_ctx 0) 11 [2, 1] [170]
          (run toy_env (post rc)
             [(toy_ctx 0, SubmitEncryptedGeometry (Ciphertext 9) (Ciphertext 8)),
              (toy_ctx 12, RequestGeometryDecryption 2)]) = Inl AlreadyDecrypted"
proof -
  define s where "s = run toy_env constructor
             [(toy_ctx 0, SubmitEncryptedGeometry (Ciphertext 7) (Ciphertext 8)),
              (toy_ctx 10, RequestGeometryDecryption 1),
              (toy_ctx 11, RequestGeometryDecryption 1)]"
  define txs where "txs = [(toy_ctx 0, SubmitEncryptedGeometry (Ciphertext 9) (Ciphertext 8)),
              (toy_ctx 12, RequestGeometryDecryption 2)]"
  have h1: "requestToGeometryId s 10 = 1" and h2: "requestToGeometryId s 11 = 1"
    and h4: "\<not> isDecrypted (decryptedGeometries s 1)"
    and cnt0: "encryptedIntersectionCount s ''cube'' = Uninitialized"
    and sub: "1 \<le> geometryCount s"
    by (simp_all add: s_def toy_defs op_defs)
  have h3: "(1::uint256) \<noteq> 0" by simp
  have h5: "checkSignatures toy_env 10 [2, 1] [170]" by (simp add: toy_env_def)
  have h6: "abi_decode_strings toy_env [2, 1] = Some [''square'', ''cube'']"
    by (simp add: toy_env_def toy_string_def)
  have h7: "2 \<le> length [''square'', ''cube'']" by simp
  from decryptGeometry_applied_once [OF h1 h2 h3 h4 h5 h6 h7,
      of "toy_ctx 0" "toy_ctx 0" "[2, 1]" "[170]" txs]
  obtain rc where rc: "decryptGeometry toy_env (toy_ctx 0) 10 [2, 1] [170] s = Inr rc"
    "decryptedGeometries (post rc) 1 =
       \<lparr>shape2D = ''square'', shape3D = ''cube'', isDecrypted = True\<rparr>"
    "plaintext (encryptedIntersectionCount (post rc) ''cube'') =
       plaintext (encryptedIntersectionCount s ''cube'') + 1"
    "decryptGeometry toy_env (toy_ctx 0) 11 [2, 1] [170] (post rc) = Inl AlreadyDecrypted"
    "1 \<le> geometryCount s \<and> requestToGeometryId (run toy_env (post rc) txs) 11 = 1 \<longrightarrow>
       decryptGeometry toy_env (toy_ctx 0) 11 [2, 1] [170] (run toy_env (post rc) txs) =
         Inl AlreadyDecrypted"
    by auto
  have "encryptedIntersectionCount (post rc) ''cube'' = Ciphertext 1"
    using rc(3) cnt0 rc(1)
    by (cases "encryptedIntersectionCount (post rc) ''cube''")
       (auto simp: decryptGeometry_def Let_def incrementCategory_count
             split: if_splits option.splits)
  moreover have "requestToGeometryId (post rc) 11 = 1"
    using rc(1) h2
    by (auto simp: decryptGeometry_def Let_def incrementCategory_frame
             split: if_splits option.splits)
  then have "requestToGeometryId (run toy_env (post rc) txs) 11 = 1"
    by (simp add: txs_def toy_ctx_def apply_tx_def op_defs split: if_splits)
  ultimately show ?thesis
    using rc sub unfolding s_def txs_def by blast
qed

section \<open>C2: which request ids the geometry callback rejects\<close>

text \<open>
  The contract keeps no kind beside a table entry, and the check of line 81 is on the
  entry alone. So the contract by itself does not tell the two kinds of request apart:
  if the library accepts a category-count request for a category whose hash is not
  zero, the geometry callback for that request id passes the lookup, and with a proof
  that verifies and a cleartext that decodes it marks the decryption state at the hash
  as decrypted.
\<close>

lemma decryptGeometry_accepts_category_request:
  assumes "requestIntersectionCountDecryption e ctx' c s = Inr rc"
    and "keccak256 e (abi_encodePacked c) \<noteq> 0"
    and "\<not> isDecrypted (decryptedGeometries s (keccak256 e (abi_encodePacked c)))"
    and "checkSignatures e (oracle_requestId ctx') ct pf"
    and "abi_decode_strings e ct = Some res" and "2 \<le> length res"
  shows "\<exists>rc'. decryptGeometry e ctx (oracle_requestId ctx') ct pf (post rc) = Inr rc' \<and>
           isDecrypted (decryptedGeometries (post rc') (keccak256 e (abi_encodePacked c)))"
  using assms
  by (auto simp: requestIntersectionCountDecryption_def decryptGeometry_def Let_def
        FHE_requestDecryption_def bytes32ToUint_def incrementCategory_frame
        split: if_splits option.splits)



section \<open>C3: a proof that does not verify\<close>

text \<open>
  C3. In the geometry callback the verification of the proof is the third step, after
  the lookup of the request id and the check that the record is not yet decrypted, as in
  section 4.2 of the spec. A callback that reaches the verification with a proof that
  fails is aborted with \<open>ProofVerificationFailed\<close>, and that error is returned in no
  other case. Every callback whose proof fails, whether it reaches the verification or
  is stopped by one of the two checks before it, aborts and leaves the whole state
  (decryption states, category counters, category registry, correlation table) as it
  was. The verification comes before any mutation: a callback that succeeds, the only
  one that writes, has a proof that verified.
\<close>

theorem decryptGeometry_bad_proof:
  "(\<not> checkSignatures e r ct pf \<longrightarrow>
      decryptGeometry e ctx r ct pf s =
        Inl (if requestToGeometryId s r = 0 then InvalidRequest
             else if isDecrypted (decryptedGeometries s (requestToGeometryId s r))
                  then AlreadyDecrypted
             else ProofVerificationFailed) \<and>
      run e s [(ctx, DecryptGeometry r ct pf)] = s) \<and>
   (decryptGeometry e ctx r ct pf s = Inl ProofVerificationFailed) =
     (requestToGeometryId s r \<noteq> 0 \<and>
      \<not> isDecrypted (decryptedGeometries s (requestToGeometryId s r)) \<and>
      \<not> checkSignatures e r ct pf) \<and>
   (\<forall>rc. decryptGeometry e ctx r ct pf s = Inr rc \<longrightarrow> checkSignatures e r ct pf)"
  by (auto simp: decryptGeometry_def apply_tx_def Let_def split: if_splits option.splits)

text \<open>
  The theorem at a submitted record whose decryption is pending as request 10: the
  callback with a bad proof fails with \<open>ProofVerificationFailed\<close>, the one with a good
  proof succeeds.
\<close>

theorem decryptGeometry_bad_proof_witness:
  "\<not> checkSignatures toy_env 10 [2, 1] [0] \<and>
   decryptGeometry toy_env (toy_ctx 0) 10 [2, 1] [0]
     (run toy_env constructor (take 2 cube_trace)) = Inl ProofVerificationFailed \<and>
   run toy_env (run toy_env constructor (take 2 cube_trace))
     [(toy_ctx 0, DecryptGeometry 10 [2, 1] [0])] = run toy_env constructor (take 2 cube_trace) \<and>
   (\<exists>rc. decryptGeometry toy_env (toy_ctx 0) 10 [2, 1] [170]
           (run toy_env constructor (take 2 cube_trace)) = Inr rc) \<and>
   checkSignatures toy_env 10 [2, 1] [170]"
proof -
  have h: "\<not> checkSignatures toy_env 10 [2, 1] [0]" by (simp add: toy_env_def)
  have r: "requestToGeometryId (run toy_env constructor (take 2 cube_trace)) 10 = 1"
    and d: "\<not> isDecrypted (decryptedGeometries (run toy_env constructor (take 2 cube_trace)) 1)"
    by (simp_all add: toy_defs op_defs)
  have ok: "\<exists>rc. decryptGeometry toy_env (toy_ctx 0) 10 [2, 1] [170]
           (run toy_env constructor (take 2 cube_trace)) = Inr rc"
    by (simp add: toy_defs op_defs)
  have bad: "decryptGeometry toy_env (toy_ctx 0) 10 [2, 1] [0]
       (run toy_env constructor (take 2 cube_trace)) = Inl ProofVerificationFailed \<and>
     run toy_env (run toy_env constructor (take 2 cube_trace))
       [(toy_ctx 0, DecryptGeometry 10 [2, 1] [0])] = run toy_env constructor (take 2 cube_trace)"
    using h r d
      decryptGeometry_bad_proof [of toy_env 10 "[2, 1]" "[0]" "toy_ctx 0" "run toy_env constructor (take 2 cube_trace)"]
    by simp
  have good: "checkSignatures toy_env 10 [2, 1] [170]"
    using ok
      decryptGeometry_bad_proof [of toy_env 10 "[2, 1]" "[170]" "toy_ctx 0" "run toy_env constructor (take 2 cube_trace)"]
    by blast
  show ?thesis
    using h bad ok good by blast
qed

section \<open>C4: the category counters\<close>

text \<open>
  C4. Take any trace of transactions from the constructor's state, and let \<open>n\<close> be the
  number of its successful geometry callbacks whose decoded 3D-shape field is \<open>c\<close>. Then
  the registry lists no category twice, and it lists \<open>c\<close> exactly when \<open>n\<close> is positive.
  The counter of \<open>c\<close> is the zero handle when \<open>n = 0\<close>; otherwise it is an encrypted zero
  incremented \<open>n\<close> times by an encrypted one, so it was created once and never set back.
  It decrypts to \<open>n\<close> as a 32-bit value, the counter being an \<^verbatim>\<open>euint32\<close>: to the number
  \<open>n\<close> itself below \<open>2^32\<close> callbacks.
\<close>

theorem category_counter_counts:
  "distinct (intersectionCategories (run e constructor txs)) \<and>
   (c \<in> set (intersectionCategories (run e constructor txs))) =
     (0 < decrypted_into e constructor txs c) \<and>
   encryptedIntersectionCount (run e constructor txs) c =
     (if decrypted_into e constructor txs c = 0 then Uninitialized
      else ((\<lambda>h. FHE_add h (FHE_asEuint32 1)) ^^ decrypted_into e constructor txs c)
             (FHE_asEuint32 0)) \<and>
   plaintext (encryptedIntersectionCount (run e constructor txs) c) =
     of_nat (decrypted_into e constructor txs c) \<and>
   (decrypted_into e constructor txs c < 2 ^ 32 \<longrightarrow>
      unat (plaintext (encryptedIntersectionCount (run e constructor txs) c)) =
        decrypted_into e constructor txs c)"
proof -
  have cnt: "encryptedIntersectionCount (run e constructor txs) c =
     (if decrypted_into e constructor txs c = 0 then Uninitialized
      else Ciphertext (of_nat (decrypted_into e constructor txs c)))"
    by (simp add: run_count) (simp add: constructor_def)
  have reg: "registry_ok (run e constructor txs)"
    by (simp add: run_registry_ok registry_ok_constructor)
  have dist: "distinct (intersectionCategories (run e constructor txs))"
    using reg unfolding registry_ok_def by blast
  have "FHE_isInitialized (encryptedIntersectionCount (run e constructor txs) c) =
     (c \<in> set (intersectionCategories (run e constructor txs)))"
    using reg unfolding registry_ok_def by blast
  then have mem: "(c \<in> set (intersectionCategories (run e constructor txs))) =
     (0 < decrypted_into e constructor txs c)"
    by (cases "decrypted_into e constructor txs c = 0")
       (simp_all add: cnt FHE_isInitialized_def)
  have folded: "encryptedIntersectionCount (run e constructor txs) c =
     (if decrypted_into e constructor txs c = 0 then Uninitialized
      else ((\<lambda>h. FHE_add h (FHE_asEuint32 1)) ^^ decrypted_into e constructor txs c)
             (FHE_asEuint32 0))"
    by (simp only: cnt increments_of_zero)
  have pl: "plaintext (encryptedIntersectionCount (run e constructor txs) c) =
     of_nat (decrypted_into e constructor txs c)"
    by (cases "decrypted_into e constructor txs c = 0") (simp_all add: cnt)
  have val: "unat (plaintext (encryptedIntersectionCount (run e constructor txs) c)) =
        decrypted_into e constructor txs c"
    if "decrypted_into e constructor txs c < 2 ^ 32"
    using that by (simp add: pl unat_of_nat_32)
  show ?thesis
    by (intro conjI impI) (fact dist, fact mem, fact folded, fact pl, erule val)
qed

text \<open>The theorem at two records that both decrypt into "cube": the counter holds 2.\<close>

theorem category_counter_counts_witness:
  "decrypted_into toy_env constructor
     (cube_trace @
        [(toy_ctx 0, SubmitEncryptedGeometry (Ciphertext 9) (Ciphertext 8)),
         (toy_ctx 11, RequestGeometryDecryption 2),
         (toy_ctx 0, DecryptGeometry 11 [3, 1] [170])]) ''cube'' = 2 \<and>
   encryptedIntersectionCount
     (run toy_env constructor
        (cube_trace @
           [(toy_ctx 0, SubmitEncryptedGeometry (Ciphertext 9) (Ciphertext 8)),
            (toy_ctx 11, RequestGeometryDecryption 2),
            (toy_ctx 0, DecryptGeometry 11 [3, 1] [170])])) ''cube'' = Ciphertext 2 \<and>
   unat (plaintext (encryptedIntersectionCount
     (run toy_env constructor
        (cube_trace @
           [(toy_ctx 0, SubmitEncryptedGeometry (Ciphertext 9) (Ciphertext 8)),
            (toy_ctx 11, RequestGeometryDecryption 2),
            (toy_ctx 0, DecryptGeometry 11 [3, 1] [170])])) ''cube'')) = 2 \<and>
   ''cube'' \<in> set (intersectionCategories
     (run toy_env constructor
        (cube_trace @
           [(toy_ctx 0, SubmitEncryptedGeometry (Ciphertext 9) (Ciphertext 8)),
            (toy_ctx 11, RequestGeometryDecryption 2),
            (toy_ctx 0, DecryptGeometry 11 [3, 1] [170])])))"
proof -
  define txs where "txs = cube_trace @
           [(toy_ctx 0, SubmitEncryptedGeometry (Ciphertext 9) (Ciphertext 8)),
            (toy_ctx 11, RequestGeometryDecryption 2),
            (toy_ctx 0, DecryptGeometry 11 [3, 1] [170])]"
  have n: "decrypted_into toy_env constructor txs ''cube'' = 2"
    by (simp add: txs_def toy_defs op_defs decrypts_into_def incrementCategory_def
        FHE_isInitialized_def FHE_add_def FHE_asEuint32_def)
  have small: "(2::nat) < 2 ^ 32" by simp
  show ?thesis
    using category_counter_counts [of toy_env txs "''cube''"] n small
    unfolding txs_def by (simp add: increments_of_zero)
qed

section \<open>C5: requesting the decryption of a record\<close>

text \<open>
  C5 as stated does not hold. The request for a submitted record that is not yet
  decrypted does not always succeed: the contract passes the two handles of the record
  to \<^verbatim>\<open>FHE.requestDecryption\<close>, and where the library refuses them, because the contract
  was given no permission on them, the call reverts.
\<close>

theorem requestGeometryDecryption_refused_counterexample:
  "geometryCount
     (run toy_env constructor
        [(toy_ctx 0, SubmitEncryptedGeometry (Ciphertext 7) (Ciphertext 8))]) = 1 \<and>
   encryptedGeometries
     (run toy_env constructor
        [(toy_ctx 0, SubmitEncryptedGeometry (Ciphertext 7) (Ciphertext 8))]) 1 =
     \<lparr>id_field = 1, encryptedShape2D = Ciphertext 7, encryptedShape3D = Ciphertext 8,
      timestamp = 1000\<rparr> \<and>
   \<not> isDecrypted (decryptedGeometries
     (run toy_env constructor
        [(toy_ctx 0, SubmitEncryptedGeometry (Ciphertext 7) (Ciphertext 8))]) 1) \<and>
   requestGeometryDecryption (acl_ctx [] 10) 1
     (run toy_env constructor
        [(toy_ctx 0, SubmitEncryptedGeometry (Ciphertext 7) (Ciphertext 8))]) =
     Inl RequestDecryptionFailed"
  by (simp add: toy_defs acl_ctx_def op_defs FHE_toBytes32_def)

text \<open>
  C5, amended. \<^verbatim>\<open>requestGeometryDecryption(id)\<close> fails with \<open>AlreadyDecrypted\<close> when the
  decryption state of \<open>id\<close> is decrypted. Otherwise the contract makes no check of its
  own, none that the record exists either: it passes the two handles stored under \<open>id\<close>
  to \<^verbatim>\<open>FHE.requestDecryption\<close>. If the library refuses them the call fails and changes
  nothing; if it accepts them the call succeeds, registers the request id returned and
  emits \<^verbatim>\<open>DecryptionRequested\<close>. A second request before the callback lands is accepted
  again on the same condition. For an id with no record, in any state reachable from the
  constructor's, the handles are the two zero handles, so the request fails wherever the
  library refuses the zero handle.
\<close>

theorem requestGeometryDecryption_outcome:
  "(isDecrypted (decryptedGeometries s g) \<longrightarrow>
      requestGeometryDecryption ctx g s = Inl AlreadyDecrypted) \<and>
   (\<not> isDecrypted (decryptedGeometries s g) \<and>
    \<not> oracle_accepts ctx [encryptedShape2D (encryptedGeometries s g),
                           encryptedShape3D (encryptedGeometries s g)] Sel_decryptGeometry \<longrightarrow>
      requestGeometryDecryption ctx g s = Inl RequestDecryptionFailed) \<and>
   (\<not> isDecrypted (decryptedGeometries s g) \<and>
    oracle_accepts ctx [encryptedShape2D (encryptedGeometries s g),
                        encryptedShape3D (encryptedGeometries s g)] Sel_decryptGeometry \<longrightarrow>
      requestGeometryDecryption ctx g s =
        Inr \<lparr>returned = [],
             post = s\<lparr>requestToGeometryId := (requestToGeometryId s)(oracle_requestId ctx := g)\<rparr>,
             events = [DecryptionRequested g],
             oracle_calls =
               [RequestDecryption [encryptedShape2D (encryptedGeometries s g),
                                   encryptedShape3D (encryptedGeometries s g)]
                  Sel_decryptGeometry]\<rparr>) \<and>
   (\<not> isDecrypted (decryptedGeometries s g) \<and>
    oracle_accepts ctx [encryptedShape2D (encryptedGeometries s g),
                        encryptedShape3D (encryptedGeometries s g)] Sel_decryptGeometry \<and>
    oracle_accepts ctx' [encryptedShape2D (encryptedGeometries s g),
                         encryptedShape3D (encryptedGeometries s g)] Sel_decryptGeometry \<longrightarrow>
      (\<exists>rc rc'. requestGeometryDecryption ctx g s = Inr rc \<and>
                 requestGeometryDecryption ctx' g (post rc) = Inr rc')) \<and>
   ((g = 0 \<or> geometryCount (run e constructor txs) < g) \<and>
    \<not> oracle_accepts ctx [Uninitialized, Uninitialized] Sel_decryptGeometry \<longrightarrow>
      (\<exists>err. requestGeometryDecryption ctx g (run e constructor txs) = Inl err))"
proof -
  have blank: "encryptedGeometries (run e constructor txs) g =
      \<lparr>id_field = 0, encryptedShape2D = Uninitialized,
       encryptedShape3D = Uninitialized, timestamp = 0\<rparr>"
    if "g = 0 \<or> geometryCount (run e constructor txs) < g"
  proof -
    have "unassigned_blank (run e constructor txs)"
      by (simp add: run_unassigned_blank unassigned_blank_constructor)
    with that show ?thesis unfolding unassigned_blank_def by blast
  qed
  have norec: "\<exists>err. requestGeometryDecryption ctx g (run e constructor txs) = Inl err"
    if "g = 0 \<or> geometryCount (run e constructor txs) < g"
      and "\<not> oracle_accepts ctx [Uninitialized, Uninitialized] Sel_decryptGeometry"
    using blank [OF that(1)] that(2) by (simp add: op_defs FHE_toBytes32_def)
  show ?thesis
    using norec by (simp add: op_defs FHE_toBytes32_def)
qed

text \<open>
  The theorem at record 1, on whose handles the contract has permission: requested twice
  before its callback, both accepted; refused where the permission is missing; rejected
  after its callback. And at id 7, which has no record: the request fails.
\<close>

theorem requestGeometryDecryption_outcome_witness:
  "\<not> isDecrypted (decryptedGeometries (run toy_env constructor (take 1 cube_trace)) 1) \<and>
   (\<exists>rc rc'. requestGeometryDecryption (acl_ctx [Ciphertext 7, Ciphertext 8] 10) 1
                (run toy_env constructor (take 1 cube_trace)) = Inr rc \<and>
              requestGeometryDecryption (acl_ctx [Ciphertext 7, Ciphertext 8] 11) 1 (post rc) =
                Inr rc') \<and>
   requestGeometryDecryption (acl_ctx [] 10) 1
     (run toy_env constructor (take 1 cube_trace)) = Inl RequestDecryptionFailed \<and>
   isDecrypted (decryptedGeometries (run toy_env constructor cube_trace) 1) \<and>
   requestGeometryDecryption (acl_ctx [Ciphertext 7, Ciphertext 8] 12) 1
     (run toy_env constructor cube_trace) = Inl AlreadyDecrypted \<and>
   geometryCount (run toy_env constructor (take 1 cube_trace)) < 7 \<and>
   (\<exists>err. requestGeometryDecryption (acl_ctx [Ciphertext 7, Ciphertext 8] 13) 7
            (run toy_env constructor (take 1 cube_trace)) = Inl err)"
proof -
  define s1 where "s1 = run toy_env constructor (take 1 cube_trace)"
  define G where "G = [Ciphertext 7, Ciphertext 8]"
  have h1: "\<not> isDecrypted (decryptedGeometries s1 1)"
    and hs: "encryptedShape2D (encryptedGeometries s1 1) = Ciphertext 7"
      "encryptedShape3D (encryptedGeometries s1 1) = Ciphertext 8"
    and lt: "geometryCount s1 < 7"
    by (simp_all add: s1_def toy_defs op_defs)
  have h2: "isDecrypted (decryptedGeometries (run toy_env constructor cube_trace) 1)"
    by (simp add: toy_defs op_defs incrementCategory_frame)
  have acc: "oracle_accepts (acl_ctx G 10) [Ciphertext 7, Ciphertext 8] Sel_decryptGeometry"
    "oracle_accepts (acl_ctx G 11) [Ciphertext 7, Ciphertext 8] Sel_decryptGeometry"
    and ref: "\<not> oracle_accepts (acl_ctx [] 10) [Ciphertext 7, Ciphertext 8] Sel_decryptGeometry"
    and zero: "\<not> oracle_accepts (acl_ctx G 13) [Uninitialized, Uninitialized] Sel_decryptGeometry"
    by (simp_all add: acl_ctx_def G_def)
  have twice: "\<exists>rc rc'. requestGeometryDecryption (acl_ctx G 10) 1 s1 = Inr rc \<and>
              requestGeometryDecryption (acl_ctx G 11) 1 (post rc) = Inr rc'"
  proof -
    have "\<not> isDecrypted (decryptedGeometries s1 1) \<and>
      oracle_accepts (acl_ctx G 10) [encryptedShape2D (encryptedGeometries s1 1),
        encryptedShape3D (encryptedGeometries s1 1)] Sel_decryptGeometry \<and>
      oracle_accepts (acl_ctx G 11) [encryptedShape2D (encryptedGeometries s1 1),
        encryptedShape3D (encryptedGeometries s1 1)] Sel_decryptGeometry"
      using h1 hs acc by simp
    then show ?thesis
      using requestGeometryDecryption_outcome [where s = s1 and g = 1 and ctx = "acl_ctx G 10" and ctx' = "acl_ctx G 11"]
      by blast
  qed
  have refused: "requestGeometryDecryption (acl_ctx [] 10) 1 s1 = Inl RequestDecryptionFailed"
  proof -
    have "\<not> isDecrypted (decryptedGeometries s1 1) \<and>
      \<not> oracle_accepts (acl_ctx [] 10) [encryptedShape2D (encryptedGeometries s1 1),
        encryptedShape3D (encryptedGeometries s1 1)] Sel_decryptGeometry"
      using h1 hs ref by simp
    then show ?thesis
      using requestGeometryDecryption_outcome [where s = s1 and g = 1 and ctx = "acl_ctx [] 10"]
      by blast
  qed
  have already: "requestGeometryDecryption (acl_ctx G 12) 1 (run toy_env constructor cube_trace) =
      Inl AlreadyDecrypted"
    using h2 requestGeometryDecryption_outcome [where s = "run toy_env constructor cube_trace" and g = 1 and ctx = "acl_ctx G 12"]
    by blast
  have norec: "\<exists>err. requestGeometryDecryption (acl_ctx G 13) 7 s1 = Inl err"
    using lt zero
      requestGeometryDecryption_outcome [where e = toy_env and txs = "take 1 cube_trace" and g = 7 and ctx = "acl_ctx G 13"]
    unfolding s1_def by blast
  show ?thesis
    using h1 twice refused h2 already lt norec unfolding s1_def G_def by blast
qed

section \<open>C6: submission\<close>

text \<open>
  C6 as stated does not hold.
  \<^verbatim>\<open>submitEncryptedGeometry\<close> declares no return value. The first submission assigns
  id 1 and stores both structs, but what it returns is the empty tuple, not the id: the
  id leaves the call only in the event \<^verbatim>\<open>GeometrySubmitted\<close>.
\<close>

theorem submitEncryptedGeometry_counterexample:
  "submitEncryptedGeometry (toy_ctx 0) (Ciphertext 7) (Ciphertext 8) constructor =
     Inr \<lparr>returned = [],
          post = constructor
            \<lparr>geometryCount := 1,
             encryptedGeometries := (encryptedGeometries constructor)
               (1 := \<lparr>id_field = 1, encryptedShape2D = Ciphertext 7,
                      encryptedShape3D = Ciphertext 8, timestamp = 1000\<rparr>),
             decryptedGeometries := (decryptedGeometries constructor)
               (1 := \<lparr>shape2D = [], shape3D = [], isDecrypted = False\<rparr>)\<rparr>,
          events = [GeometrySubmitted 1 1000],
          oracle_calls = []\<rparr> \<and>
   returned (projr (submitEncryptedGeometry (toy_ctx 0) (Ciphertext 7) (Ciphertext 8) constructor))
     \<noteq> [AUint256 1]"
  by (simp add: submitEncryptedGeometry_def Let_def constructor_def toy_ctx_def)

text \<open>
  C6, amended. A call to submit succeeds unless the counter stands at \<open>2^256 - 1\<close>, where
  the checked increment reverts. A successful call assigns the id \<open>geometryCount + 1\<close>,
  which is the counter afterwards; in the one step it stores the encrypted record under
  that id together with an empty decryption state (two empty strings, not decrypted),
  changes the record and the decryption state of no other id, and emits
  \<^verbatim>\<open>GeometrySubmitted\<close> with the id and the timestamp. It returns no value. Along any
  trace from the constructor's state the ids assigned are strictly increasing, so none
  is used twice, and none is zero.
\<close>

theorem submitEncryptedGeometry_outcome:
  "(geometryCount s \<noteq> - 1 \<longrightarrow>
      (\<exists>rc. submitEncryptedGeometry ctx a b s = Inr rc \<and>
         returned rc = [] \<and>
         events rc = [GeometrySubmitted (geometryCount (post rc)) (block_timestamp ctx)] \<and>
         unat (geometryCount (post rc)) = unat (geometryCount s) + 1 \<and>
         encryptedGeometries (post rc) (geometryCount (post rc)) =
           \<lparr>id_field = geometryCount (post rc), encryptedShape2D = a, encryptedShape3D = b,
            timestamp = block_timestamp ctx\<rparr> \<and>
         decryptedGeometries (post rc) (geometryCount (post rc)) =
           \<lparr>shape2D = [], shape3D = [], isDecrypted = False\<rparr> \<and>
         (\<forall>g. g \<noteq> geometryCount (post rc) \<longrightarrow>
            encryptedGeometries (post rc) g = encryptedGeometries s g \<and>
            decryptedGeometries (post rc) g = decryptedGeometries s g))) \<and>
   (geometryCount s = - 1 \<longrightarrow> submitEncryptedGeometry ctx a b s = Inl PanicOverflow) \<and>
   sorted_wrt (<) (assigned_ids e constructor txs) \<and>
   0 \<notin> set (assigned_ids e constructor txs)"
proof -
  have step: "unat (geometryCount s + 1) = unat (geometryCount s) + 1"
    if "geometryCount s \<noteq> - 1"
  proof -
    have "1 + geometryCount s \<noteq> 0"
      using that by (simp add: add_eq_0_iff)
    then show ?thesis
      using unatSuc [of "geometryCount s"] by (simp add: add.commute)
  qed
  have tr: "sorted_wrt (<) (assigned_ids e constructor txs)"
    and pos: "\<forall>i \<in> set (assigned_ids e constructor txs). geometryCount constructor < i"
    using assigned_ids_increasing [of e constructor txs] by blast+
  have "0 \<notin> set (assigned_ids e constructor txs)"
    using pos by auto
  with tr step show ?thesis
    by (simp add: submitEncryptedGeometry_def Let_def)
qed

text \<open>
  The theorem at the first submission, at a counter that stands at \<open>2^256 - 1\<close>, and at a
  trace with two submissions: they get the ids 1 and 2.
\<close>

theorem submitEncryptedGeometry_outcome_witness:
  "geometryCount constructor \<noteq> - 1 \<and>
   (\<exists>rc. submitEncryptedGeometry (toy_ctx 0) (Ciphertext 7) (Ciphertext 8) constructor = Inr rc \<and>
      returned rc = [] \<and>
      unat (geometryCount (post rc)) = 1 \<and>
      decryptedGeometries (post rc) (geometryCount (post rc)) =
        \<lparr>shape2D = [], shape3D = [], isDecrypted = False\<rparr>) \<and>
   submitEncryptedGeometry (toy_ctx 0) (Ciphertext 7) (Ciphertext 8)
     (constructor\<lparr>geometryCount := - 1\<rparr>) = Inl PanicOverflow \<and>
   assigned_ids toy_env constructor
     (cube_trace @ [(toy_ctx 0, SubmitEncryptedGeometry (Ciphertext 9) (Ciphertext 8))]) = [1, 2] \<and>
   sorted_wrt (<) (assigned_ids toy_env constructor
     (cube_trace @ [(toy_ctx 0, SubmitEncryptedGeometry (Ciphertext 9) (Ciphertext 8))]))"
proof -
  have h: "geometryCount constructor \<noteq> - 1"
    and z: "unat (geometryCount constructor) = 0"
    and m: "geometryCount (constructor\<lparr>geometryCount := - 1\<rparr>) = - 1"
    by (simp_all add: constructor_def)
  have ids: "assigned_ids toy_env constructor
     (cube_trace @ [(toy_ctx 0, SubmitEncryptedGeometry (Ciphertext 9) (Ciphertext 8))]) = [1, 2]"
    by (simp add: assigned_id_def toy_defs op_defs incrementCategory_frame)
  have ov: "submitEncryptedGeometry (toy_ctx 0) (Ciphertext 7) (Ciphertext 8)
     (constructor\<lparr>geometryCount := - 1\<rparr>) = Inl PanicOverflow"
    using m submitEncryptedGeometry_outcome
      [of "constructor\<lparr>geometryCount := - 1\<rparr>" "toy_ctx 0" "Ciphertext 7" "Ciphertext 8"
        toy_env "[]"]
    by blast
  show ?thesis
    using h z ids ov
      submitEncryptedGeometry_outcome [of constructor "toy_ctx 0" "Ciphertext 7" "Ciphertext 8"
        toy_env "cube_trace @ [(toy_ctx 0, SubmitEncryptedGeometry (Ciphertext 9) (Ciphertext 8))]"]
    by auto
qed

section \<open>C7: reading a counter\<close>

text \<open>
  C7 as stated does not hold.
  \<^verbatim>\<open>getEncryptedIntersectionCount\<close> has no \<^verbatim>\<open>require\<close>. After the run that registers
  "cube" alone, the call for "sphere" does not fail: it returns the zero handle.
\<close>

theorem getEncryptedIntersectionCount_counterexample:
  "''sphere'' \<notin> set (intersectionCategories (run toy_env constructor cube_trace)) \<and>
   exec toy_env (toy_ctx 0) (GetEncryptedIntersectionCount ''sphere'')
     (run toy_env constructor cube_trace) =
     Inr \<lparr>returned = [AEuint32 Uninitialized], post = run toy_env constructor cube_trace,
          events = [], oracle_calls = []\<rparr> \<and>
   exec toy_env (toy_ctx 0) (GetEncryptedIntersectionCount ''sphere'')
     (run toy_env constructor cube_trace) \<noteq> Inl CategoryNotFound"
  by (simp add: toy_defs op_defs incrementCategory_def
        FHE_isInitialized_def FHE_add_def FHE_asEuint32_def)

text \<open>
  C7, amended. \<^verbatim>\<open>getEncryptedIntersectionCount\<close> never fails: it returns the handle stored
  for the category and changes nothing. In every state reachable from the constructor's,
  the handle of a category that is not in the registry, or that no record has decrypted
  into, is the zero handle, for which \<^verbatim>\<open>isInitialized\<close> is false.
\<close>

theorem getEncryptedIntersectionCount_never_fails:
  "exec e ctx (GetEncryptedIntersectionCount c) s =
     Inr \<lparr>returned = [AEuint32 (encryptedIntersectionCount s c)], post = s,
          events = [], oracle_calls = []\<rparr> \<and>
   (c \<notin> set (intersectionCategories (run e constructor txs)) \<longrightarrow>
      getEncryptedIntersectionCount c (run e constructor txs) = Uninitialized) \<and>
   (decrypted_into e constructor txs c = 0 \<longrightarrow>
      getEncryptedIntersectionCount c (run e constructor txs) = Uninitialized)"
proof -
  have "registry_ok (run e constructor txs)"
    by (simp add: run_registry_ok registry_ok_constructor)
  then have "FHE_isInitialized (encryptedIntersectionCount (run e constructor txs) c) =
     (c \<in> set (intersectionCategories (run e constructor txs)))"
    unfolding registry_ok_def by blast
  moreover have "encryptedIntersectionCount (run e constructor txs) c = Uninitialized"
    if "decrypted_into e constructor txs c = 0"
    using that by (simp add: run_count) (simp add: constructor_def)
  ultimately show ?thesis
    by (auto simp: view_result_def getEncryptedIntersectionCount_def FHE_isInitialized_def)
qed

text \<open>The theorem at the category "sphere" after the run that registers "cube".\<close>

theorem getEncryptedIntersectionCount_never_fails_witness:
  "''sphere'' \<notin> set (intersectionCategories (run toy_env constructor cube_trace)) \<and>
   decrypted_into toy_env constructor cube_trace ''sphere'' = 0 \<and>
   getEncryptedIntersectionCount ''sphere'' (run toy_env constructor cube_trace) = Uninitialized"
proof -
  have h: "''sphere'' \<notin> set (intersectionCategories (run toy_env constructor cube_trace))"
    and z: "decrypted_into toy_env constructor cube_trace ''sphere'' = 0"
    by (simp_all add: toy_defs op_defs decrypts_into_def incrementCategory_def
        FHE_isInitialized_def FHE_add_def FHE_asEuint32_def)
  show ?thesis
    using h z getEncryptedIntersectionCount_never_fails [of toy_env "toy_ctx 0" "''sphere''" constructor cube_trace]
    by blast
qed

section \<open>C8: the decrypted flag and the plaintext fields\<close>

text \<open>
  Why the flag is stable for submitted records only. Where the library accepts a
  decryption request for an id that no submission has reached yet, the contract accepts
  the request and its callback, and the submission that later reaches the id stores the
  empty placeholder over the decrypted state.
\<close>

lemma unassigned_id_reset:
  "isDecrypted (decryptedGeometries
     (run toy_env constructor
        [(toy_ctx 10, RequestGeometryDecryption 1),
         (toy_ctx 0, DecryptGeometry 10 [2, 1] [170])]) 1) \<and>
   \<not> isDecrypted (decryptedGeometries
     (run toy_env constructor
        [(toy_ctx 10, RequestGeometryDecryption 1),
         (toy_ctx 0, DecryptGeometry 10 [2, 1] [170]),
         (toy_ctx 0, SubmitEncryptedGeometry (Ciphertext 7) (Ciphertext 8))]) 1)"
  by (simp add: toy_defs op_defs incrementCategory_frame)

text \<open>
  C8 as stated does not hold. The callback stores the decoded strings as they are. When
  the cleartext decodes to two empty strings, record 1 ends up decrypted with both
  plaintext fields empty.
\<close>

theorem decrypted_empty_counterexample:
  "decryptedGeometries
     (run toy_env constructor
        [(toy_ctx 0, SubmitEncryptedGeometry (Ciphertext 7) (Ciphertext 8)),
         (toy_ctx 10, RequestGeometryDecryption 1),
         (toy_ctx 0, DecryptGeometry 10 [0, 0] [170])]) 1 =
   \<lparr>shape2D = [], shape3D = [], isDecrypted = True\<rparr>"
  by (simp add: toy_defs op_defs incrementCategory_frame)

text \<open>
  C8, amended. In every state reachable from the constructor's, a decryption state that
  is not decrypted has two empty plaintext fields. A successful callback stores the two
  strings it decoded, which may be empty, and sets the flag, in the decryption state of
  its record and in no other. The decryption state of a submitted record
  (\<open>g \<le> geometryCount\<close>), once decrypted, is never written again: its flag never goes
  from true back to false and it keeps the strings that were decoded, whatever
  transactions follow.
\<close>

theorem decryption_state_invariant:
  "(\<not> isDecrypted (decryptedGeometries (run e constructor txs) g) \<longrightarrow>
      shape2D (decryptedGeometries (run e constructor txs) g) = [] \<and>
      shape3D (decryptedGeometries (run e constructor txs) g) = []) \<and>
   (isDecrypted (decryptedGeometries s g) \<and> g \<le> geometryCount s \<longrightarrow>
      isDecrypted (decryptedGeometries (run e s txs') g)) \<and>
   (\<forall>rc. decryptGeometry e ctx r ct pf s = Inr rc \<longrightarrow>
      (\<exists>res. abi_decode_strings e ct = Some res \<and> 2 \<le> length res \<and>
         decryptedGeometries (post rc) (requestToGeometryId s r) =
           \<lparr>shape2D = res ! 0, shape3D = res ! 1, isDecrypted = True\<rparr> \<and>
         (\<forall>g'. g' \<noteq> requestToGeometryId s r \<longrightarrow>
            decryptedGeometries (post rc) g' = decryptedGeometries s g'))) \<and>
   (isDecrypted (decryptedGeometries s g) \<and> g \<le> geometryCount s \<longrightarrow>
      decryptedGeometries (run e s txs') g = decryptedGeometries s g)"
proof -
  have "undecrypted_empty (run e constructor txs)"
    by (simp add: run_undecrypted_empty undecrypted_empty_constructor)
  then have a: "\<not> isDecrypted (decryptedGeometries (run e constructor txs) g) \<longrightarrow>
      shape2D (decryptedGeometries (run e constructor txs) g) = [] \<and>
      shape3D (decryptedGeometries (run e constructor txs) g) = []"
    unfolding undecrypted_empty_def by blast
  have b: "isDecrypted (decryptedGeometries s g) \<and> g \<le> geometryCount s \<longrightarrow>
      isDecrypted (decryptedGeometries (run e s txs') g)"
    using run_isDecrypted_mono by blast
  have c: "\<forall>rc. decryptGeometry e ctx r ct pf s = Inr rc \<longrightarrow>
      (\<exists>res. abi_decode_strings e ct = Some res \<and> 2 \<le> length res \<and>
         decryptedGeometries (post rc) (requestToGeometryId s r) =
           \<lparr>shape2D = res ! 0, shape3D = res ! 1, isDecrypted = True\<rparr> \<and>
         (\<forall>g'. g' \<noteq> requestToGeometryId s r \<longrightarrow>
            decryptedGeometries (post rc) g' = decryptedGeometries s g'))"
    by (auto simp: decryptGeometry_def Let_def incrementCategory_frame
             split: if_splits option.splits)
  have d: "isDecrypted (decryptedGeometries s g) \<and> g \<le> geometryCount s \<longrightarrow>
      decryptedGeometries (run e s txs') g = decryptedGeometries s g"
    using run_decrypted_frozen by blast
  show ?thesis
    by (intro conjI) (fact a, fact b, fact c, fact d)
qed

text \<open>
  The theorem at record 1: empty while its decryption is pending; holding "square" and
  the empty string after a callback that decodes to them; and, in the run where it was
  decrypted into "cube", unchanged after a submission, a request and a replayed callback.
\<close>

theorem decryption_state_invariant_witness:
  "\<not> isDecrypted (decryptedGeometries (run toy_env constructor (take 2 cube_trace)) 1) \<and>
   shape2D (decryptedGeometries (run toy_env constructor (take 2 cube_trace)) 1) = [] \<and>
   shape3D (decryptedGeometries (run toy_env constructor (take 2 cube_trace)) 1) = [] \<and>
   abi_decode_strings toy_env [2, 0] = Some [''square'', []] \<and>
   (\<exists>rc. decryptGeometry toy_env (toy_ctx 0) 10 [2, 0] [170]
           (run toy_env constructor (take 2 cube_trace)) = Inr rc \<and>
         decryptedGeometries (post rc) 1 =
           \<lparr>shape2D = ''square'', shape3D = [], isDecrypted = True\<rparr>) \<and>
   isDecrypted (decryptedGeometries (run toy_env constructor cube_trace) 1) \<and>
   1 \<le> geometryCount (run toy_env constructor cube_trace) \<and>
   decryptedGeometries
     (run toy_env (run toy_env constructor cube_trace)
        [(toy_ctx 0, SubmitEncryptedGeometry (Ciphertext 9) (Ciphertext 8)),
         (toy_ctx 12, RequestGeometryDecryption 1),
         (toy_ctx 0, DecryptGeometry 10 [0, 0] [170])]) 1 =
     \<lparr>shape2D = ''square'', shape3D = ''cube'', isDecrypted = True\<rparr>"
proof -
  define s2 where "s2 = run toy_env constructor (take 2 cube_trace)"
  define s3 where "s3 = run toy_env constructor cube_trace"
  define later where "later =
        [(toy_ctx 0, SubmitEncryptedGeometry (Ciphertext 9) (Ciphertext 8)),
         (toy_ctx 12, RequestGeometryDecryption 1),
         (toy_ctx 0, DecryptGeometry 10 [0, 0] [170])]"
  have h1: "\<not> isDecrypted (decryptedGeometries s2 1)"
    and rq: "requestToGeometryId s2 10 = 1"
    by (simp_all add: s2_def toy_defs op_defs)
  have h2: "isDecrypted (decryptedGeometries s3 1)"
    and h3: "1 \<le> geometryCount s3"
    and val: "decryptedGeometries s3 1 =
       \<lparr>shape2D = ''square'', shape3D = ''cube'', isDecrypted = True\<rparr>"
    by (simp_all add: s3_def toy_defs op_defs incrementCategory_frame)
  have dec: "abi_decode_strings toy_env [2, 0] = Some [''square'', []]"
    by (simp add: toy_env_def toy_string_def)
  have "\<exists>rc. decryptGeometry toy_env (toy_ctx 0) 10 [2, 0] [170] s2 = Inr rc"
    using h1 rq dec by (simp add: decryptGeometry_def Let_def toy_env_def)
  then obtain rc where rc: "decryptGeometry toy_env (toy_ctx 0) 10 [2, 0] [170] s2 = Inr rc"
    by blast
  note thm1 = decryption_state_invariant [where e = toy_env and txs = "take 2 cube_trace" and g = 1 and s = s2
      and ctx = "toy_ctx 0" and r = 10 and ct = "[2, 0]" and pf = "[170]" and txs' = "[]"]
  note thm2 = decryption_state_invariant [where e = toy_env and txs = "[]" and g = 1 and s = s3
      and ctx = "toy_ctx 0" and r = 10 and ct = "[2, 0]" and pf = "[170]" and txs' = later]
  have empty: "shape2D (decryptedGeometries s2 1) = [] \<and> shape3D (decryptedGeometries s2 1) = []"
    using h1 thm1 unfolding s2_def by blast
  have stored: "decryptedGeometries (post rc) 1 =
      \<lparr>shape2D = ''square'', shape3D = [], isDecrypted = True\<rparr>"
  proof -
    from thm1 rc obtain res where "abi_decode_strings toy_env [2, 0] = Some res"
      and "decryptedGeometries (post rc) (requestToGeometryId s2 10) =
           \<lparr>shape2D = res ! 0, shape3D = res ! 1, isDecrypted = True\<rparr>"
      by blast
    with dec rq show ?thesis by simp
  qed
  have kept: "decryptedGeometries (run toy_env s3 later) 1 =
      \<lparr>shape2D = ''square'', shape3D = ''cube'', isDecrypted = True\<rparr>"
    using h2 h3 val thm2 by simp
  show ?thesis
    using h1 empty dec rc stored h2 h3 kept unfolding s2_def s3_def later_def by blast
qed

section \<open>C9: the category-count callback\<close>

text \<open>
  C9. A category-count decryption callback that succeeds returns nothing, emits no
  event, sends nothing to the oracle and leaves the storage as it was: every record,
  every counter, the registry and the correlation table. The decoded count goes
  nowhere: a callback for the same request with any other cleartext that verifies and
  decodes has the very same outcome.
\<close>

theorem decryptIntersectionCount_no_effect:
  assumes "decryptIntersectionCount e ctx r ct pf s = Inr rc"
  shows "rc = \<lparr>returned = [], post = s, events = [], oracle_calls = []\<rparr> \<and>
         run e s [(ctx, DecryptIntersectionCount r ct pf)] = s \<and>
         (checkSignatures e r ct' pf' \<and> abi_decode_uint32 e ct' \<noteq> None \<longrightarrow>
            decryptIntersectionCount e ctx' r ct' pf' s = Inr rc)"
  using assms
  by (auto simp: decryptIntersectionCount_def Let_def apply_tx_def
           split: sum.splits if_splits option.splits)

text \<open>
  The theorem at a run where "cube" is registered and its count requested as request 20:
  the callback succeeds and changes nothing, and the outcome is the same for the
  cleartexts of the counts 1 and 2.
\<close>

theorem decryptIntersectionCount_no_effect_witness:
  "decryptIntersectionCount toy_env (toy_ctx 0) 20 [1] [170]
     (run toy_env constructor
        (cube_trace @ [(toy_ctx 20, RequestIntersectionCountDecryption ''cube'')])) =
   Inr \<lparr>returned = [],
        post = run toy_env constructor
                 (cube_trace @ [(toy_ctx 20, RequestIntersectionCountDecryption ''cube'')]),
        events = [], oracle_calls = []\<rparr> \<and>
   checkSignatures toy_env 20 [2] [170] \<and>
   abi_decode_uint32 toy_env [2] = Some 2 \<and>
   decryptIntersectionCount toy_env (toy_ctx 0) 20 [2] [170]
     (run toy_env constructor
        (cube_trace @ [(toy_ctx 20, RequestIntersectionCountDecryption ''cube'')])) =
   decryptIntersectionCount toy_env (toy_ctx 0) 20 [1] [170]
     (run toy_env constructor
        (cube_trace @ [(toy_ctx 20, RequestIntersectionCountDecryption ''cube'')]))"
proof -
  define s where "s = run toy_env constructor
        (cube_trace @ [(toy_ctx 20, RequestIntersectionCountDecryption ''cube'')])"
  have "\<exists>rc. decryptIntersectionCount toy_env (toy_ctx 0) 20 [1] [170] s = Inr rc"
    by (simp add: s_def toy_defs op_defs incrementCategory_def getCategoryFromHash_def
        abi_encodePacked_def bytes32ToUint_def FHE_isInitialized_def FHE_add_def
        FHE_asEuint32_def)
  then obtain rc where rc: "decryptIntersectionCount toy_env (toy_ctx 0) 20 [1] [170] s = Inr rc"
    by blast
  have v: "checkSignatures toy_env 20 [2] [170]"
    and d: "abi_decode_uint32 toy_env [2] = Some 2"
    by (simp_all add: toy_env_def)
  from decryptIntersectionCount_no_effect [OF rc, of "[2]" "[170]" "toy_ctx 0"] v d
  have "rc = \<lparr>returned = [], post = s, events = [], oracle_calls = []\<rparr>"
    and "decryptIntersectionCount toy_env (toy_ctx 0) 20 [2] [170] s = Inr rc"
    by simp_all
  with rc v d show ?thesis unfolding s_def by simp
qed

section \<open>C10: the caller\<close>

text \<open>
  C10. No function of the contract reads \<^verbatim>\<open>msg.sender\<close>, and the modifier
  \<^verbatim>\<open>onlyParticipant\<close> runs the body as it is. Two calls that differ only in the caller
  have the same outcome: the same revert, or the same return values, storage, events and
  oracle requests. That holds for every public function, the two oracle callbacks
  included, which only the signature check guards.
\<close>

theorem caller_independent:
  "exec e (ctx\<lparr>msg_sender := a\<rparr>) c s = exec e (ctx\<lparr>msg_sender := b\<rparr>) c s \<and>
   onlyParticipant a g body = body"
  by (cases c) (simp_all add: op_defs)

text \<open>The theorem at the geometry callback for a pending request, called by 1 and by 2.\<close>

theorem caller_independent_witness:
  "exec toy_env ((toy_ctx 10)\<lparr>msg_sender := 1\<rparr>)
        (DecryptGeometry 10 [2, 1] [170])
        (run toy_env constructor (take 2 cube_trace)) =
   exec toy_env ((toy_ctx 10)\<lparr>msg_sender := 2\<rparr>)
        (DecryptGeometry 10 [2, 1] [170])
        (run toy_env constructor (take 2 cube_trace))"
  using caller_independent [where e = toy_env and ctx = "toy_ctx 10" and a = 1 and b = 2
      and c = "DecryptGeometry 10 [2, 1] [170]"
      and s = "run toy_env constructor (take 2 cube_trace)"]
  by simp

end
